theory Spec2Isabelle
  imports Main
begin

section \<open>Values of the host language\<close>

text \<open>
  \<^verbatim>\<open>utils.ts\<close> is dynamically typed at run time: its functions inspect the shape of
  what they are given (\<^verbatim>\<open>typeof\<close>, \<^verbatim>\<open>Array.isArray\<close>, \<^verbatim>\<open>in\<close>). The model therefore
  works on one type of run-time values. It covers the data values: \<^verbatim>\<open>undefined\<close>,
  \<^verbatim>\<open>null\<close>, booleans, numbers, strings, arrays and plain objects. An object is the list
  of its own enumerable properties in the order \<^verbatim>\<open>Object.keys\<close> lists them; its
  prototype is \<^verbatim>\<open>Object.prototype\<close>, that of an array is \<^verbatim>\<open>Array.prototype\<close>.

  The prototypes are present by the names of their properties: \<^verbatim>\<open>in\<close> answers for an
  inherited name as for an own one. The values behind those names are built-in functions
  and objects, which are no data values. A run that reads one, or that replaces the
  prototype of an object it builds, ends in \<open>Beyond\<close>: the code goes on, and the model
  does not say how.

  Outside the model: accessors and symbols, the engine's reordering of array-index keys
  ahead of the other keys of an object it builds, and numbers that are not integers
  printed in plain decimal notation. Of the functions modelled here only \<^verbatim>\<open>toObserver\<close>
  is given functions as values; it has a value type of its own below.
\<close>

datatype jsval =
    JUndefined
  | JNull
  | JBool bool
  | JNum int
  | JStr string
  | JArr "jsval list"
  | JObj "(string \<times> jsval) list"

text \<open>
  Why a call returns no data value. Three are what the code throws: \<open>TypeError\<close> is
  raised by the runtime (a property read on \<^verbatim>\<open>undefined\<close>, \<^verbatim>\<open>in\<close> on a primitive, a call
  of something that is not a function); \<open>ParseError msg\<close> is the
  \<^verbatim>\<open>new Error(`'${stateId}' is not a valid state path.`)\<close> of \<^verbatim>\<open>toStatePath\<close>, with its
  message; \<open>EventTypeError\<close> is the
  \<^verbatim>\<open>new Error('Events must be strings or objects with a string event.type property.')\<close>
  of \<^verbatim>\<open>getEventType\<close>. \<open>Beyond\<close> is no error of the code: the run has left the data
  values (see above), and nothing is said about its result.
\<close>

datatype error = TypeError | ParseError string | EventTypeError | Beyond

subsection \<open>Numbers and strings\<close>

definition digit :: "nat \<Rightarrow> char" where
  "digit n = ''0123456789'' ! n"

function decimal :: "nat \<Rightarrow> string" where
  "decimal n = (if n < 10 then [digit n] else decimal (n div 10) @ [digit (n mod 10)])"
  by pat_completeness auto
termination
  by (relation "measure id") auto

declare decimal.simps [simp del]

text \<open>\<^verbatim>\<open>Number.prototype.toString\<close> and \<^verbatim>\<open>`${n}`\<close> on an integer.\<close>

definition numToString :: "int \<Rightarrow> string" where
  "numToString i = (if i < 0 then CHR ''-'' # decimal (nat (- i)) else decimal (nat i))"

text \<open>
  \<^verbatim>\<open>String.prototype.split(separator)\<close> for a string separator and no limit. With the
  empty separator the string is cut into its characters. Otherwise the occurrences of
  the separator are found from left to right, each search starting behind the previous
  occurrence; \<open>splitAt d ds acc s\<close> scans \<open>s\<close> for the separator \<open>d # ds\<close>, with the
  characters of the current piece in \<open>acc\<close>, last first.
\<close>

fun splitAt :: "char \<Rightarrow> string \<Rightarrow> string \<Rightarrow> string \<Rightarrow> string list" where
  "splitAt d ds acc [] = [rev acc]"
| "splitAt d ds acc (c # cs) =
     (if take (Suc (length ds)) (c # cs) = d # ds
      then rev acc # splitAt d ds [] (drop (length ds) cs)
      else splitAt d ds (c # acc) cs)"

definition js_split :: "string \<Rightarrow> string \<Rightarrow> string list" where
  "js_split s separator =
     (case separator of
        [] \<Rightarrow> map (\<lambda>c. [c]) s
      | d # ds \<Rightarrow> splitAt d ds [] s)"

subsection \<open>Operators of the runtime\<close>

fun typeof :: "jsval \<Rightarrow> string" where
  "typeof JUndefined = ''undefined''"
| "typeof JNull = ''object''"
| "typeof (JBool b) = ''boolean''"
| "typeof (JNum n) = ''number''"
| "typeof (JStr s) = ''string''"
| "typeof (JArr xs) = ''object''"
| "typeof (JObj kvs) = ''object''"


definition nullish :: "jsval \<Rightarrow> bool" where
  "nullish v = (v = JUndefined \<or> v = JNull)"

text \<open>The index a property key denotes in an array or string of length \<open>n\<close>, if any.\<close>

definition indexKey :: "string \<Rightarrow> nat \<Rightarrow> nat option" where
  "indexKey key n = List.find (\<lambda>i. decimal i = key) [0..<n]"

text \<open>
  The string-keyed properties of the built-in prototypes (ECMAScript 2024, Annex B
  included). Every prototype but \<^verbatim>\<open>Object.prototype\<close> inherits from \<^verbatim>\<open>Object.prototype\<close>.
\<close>

definition objectPrototypeNames :: "string list" where
  "objectPrototypeNames =
     [''constructor'', ''__defineGetter__'', ''__defineSetter__'', ''hasOwnProperty'',
      ''__lookupGetter__'', ''__lookupSetter__'', ''isPrototypeOf'',
      ''propertyIsEnumerable'', ''toString'', ''valueOf'', ''__proto__'',
      ''toLocaleString'']"

definition arrayPrototypeNames :: "string list" where
  "arrayPrototypeNames =
     [''length'', ''constructor'', ''at'', ''concat'', ''copyWithin'', ''fill'', ''find'',
      ''findIndex'', ''findLast'', ''findLastIndex'', ''lastIndexOf'', ''pop'', ''push'',
      ''reverse'', ''shift'', ''unshift'', ''slice'', ''sort'', ''splice'', ''includes'',
      ''indexOf'', ''join'', ''keys'', ''entries'', ''values'', ''forEach'', ''filter'',
      ''flat'', ''flatMap'', ''map'', ''every'', ''some'', ''reduce'', ''reduceRight'',
      ''toLocaleString'', ''toString'', ''toReversed'', ''toSorted'', ''toSpliced'',
      ''with'']"

definition stringPrototypeNames :: "string list" where
  "stringPrototypeNames =
     [''length'', ''constructor'', ''anchor'', ''at'', ''big'', ''blink'', ''bold'',
      ''charAt'', ''charCodeAt'', ''codePointAt'', ''concat'', ''endsWith'', ''fontcolor'',
      ''fontsize'', ''fixed'', ''includes'', ''indexOf'', ''isWellFormed'', ''italics'',
      ''lastIndexOf'', ''link'', ''localeCompare'', ''match'', ''matchAll'', ''normalize'',
      ''padEnd'', ''padStart'', ''repeat'', ''replace'', ''replaceAll'', ''search'',
      ''slice'', ''small'', ''split'', ''strike'', ''sub'', ''substr'', ''substring'',
      ''sup'', ''startsWith'', ''toString'', ''toWellFormed'', ''trim'', ''trimStart'',
      ''trimLeft'', ''trimEnd'', ''trimRight'', ''toLocaleLowerCase'',
      ''toLocaleUpperCase'', ''toLowerCase'', ''toUpperCase'', ''valueOf'']"

definition numberPrototypeNames :: "string list" where
  "numberPrototypeNames =
     [''constructor'', ''toExponential'', ''toFixed'', ''toPrecision'', ''toString'',
      ''valueOf'', ''toLocaleString'']"

definition booleanPrototypeNames :: "string list" where
  "booleanPrototypeNames = [''constructor'', ''toString'', ''valueOf'']"

text \<open>The names a value inherits, and whether a key names an own property of it.\<close>

fun protoNames :: "jsval \<Rightarrow> string list" where
  "protoNames (JBool b) = booleanPrototypeNames @ objectPrototypeNames"
| "protoNames (JNum n) = numberPrototypeNames @ objectPrototypeNames"
| "protoNames (JStr s) = stringPrototypeNames @ objectPrototypeNames"
| "protoNames (JArr xs) = arrayPrototypeNames @ objectPrototypeNames"
| "protoNames (JObj kvs) = objectPrototypeNames"
| "protoNames v = []"

fun hasOwn :: "jsval \<Rightarrow> string \<Rightarrow> bool" where
  "hasOwn (JStr s) key = (key = ''length'' \<or> indexKey key (length s) \<noteq> None)"
| "hasOwn (JArr xs) key = (key = ''length'' \<or> indexKey key (length xs) \<noteq> None)"
| "hasOwn (JObj kvs) key = (key \<in> set (map fst kvs))"
| "hasOwn v key = False"

definition inherits :: "jsval \<Rightarrow> string \<Rightarrow> bool" where
  "inherits v key = (\<not> hasOwn v key \<and> key \<in> set (protoNames v))"

text \<open>The property names the code itself reads or tests are on no prototype.\<close>

lemma not_inherited [simp]:
  "\<not> inherits v ''type''" "\<not> inherits v ''value''" "\<not> inherits v ''context''"
  "\<not> inherits v ''event''" "\<not> inherits v ''_event''" "\<not> inherits v ''$$type''"
  by (cases v; simp add: inherits_def objectPrototypeNames_def arrayPrototypeNames_def
      stringPrototypeNames_def numberPrototypeNames_def booleanPrototypeNames_def)+

text \<open>
  \<open>propOf v key\<close> is the value of the own property \<open>key\<close> of \<open>v\<close>, and \<^verbatim>\<open>undefined\<close> when
  \<open>v\<close> has none. \<open>get\<close> is the property read \<^verbatim>\<open>v[key]\<close>: it throws on \<^verbatim>\<open>undefined\<close> and
  \<^verbatim>\<open>null\<close>, gives the own property when there is one, is \<open>Beyond\<close> for a name that is
  inherited only, and gives \<^verbatim>\<open>undefined\<close> for any other name.
\<close>

fun propOf :: "jsval \<Rightarrow> string \<Rightarrow> jsval" where
  "propOf (JStr s) key =
     (if key = ''length'' then JNum (int (length s))
      else case indexKey key (length s) of Some i \<Rightarrow> JStr [s ! i] | None \<Rightarrow> JUndefined)"
| "propOf (JArr xs) key =
     (if key = ''length'' then JNum (int (length xs))
      else case indexKey key (length xs) of Some i \<Rightarrow> xs ! i | None \<Rightarrow> JUndefined)"
| "propOf (JObj kvs) key = (case map_of kvs key of Some v \<Rightarrow> v | None \<Rightarrow> JUndefined)"
| "propOf v key = JUndefined"

definition get :: "jsval \<Rightarrow> string \<Rightarrow> error + jsval" where
  "get v key =
     (if nullish v then Inl TypeError
      else if inherits v key then Inl Beyond
      else Inr (propOf v key))"

text \<open>
  \<open>ownKeys v\<close> is \<^verbatim>\<open>Object.keys(v)\<close> on a value that is neither \<^verbatim>\<open>undefined\<close> nor
  \<^verbatim>\<open>null\<close>; \<open>keys\<close> is the source's \<^verbatim>\<open>keys(value)\<close>, which throws on those two.
\<close>

fun ownKeys :: "jsval \<Rightarrow> string list" where
  "ownKeys (JStr s) = map decimal [0..<length s]"
| "ownKeys (JArr xs) = map decimal [0..<length xs]"
| "ownKeys (JObj kvs) = map fst kvs"
| "ownKeys v = []"

definition keys :: "jsval \<Rightarrow> error + string list" where
  "keys v = (if nullish v then Inl TypeError else Inr (ownKeys v))"

text \<open>
  \<open>has_in key v\<close> is \<^verbatim>\<open>key in v\<close>: true for an own and for an inherited name, a
  \<open>TypeError\<close> when \<open>v\<close> is not an object.
\<close>

fun has_in :: "string \<Rightarrow> jsval \<Rightarrow> error + bool" where
  "has_in key (JArr xs) =
     Inr (hasOwn (JArr xs) key \<or> inherits (JArr xs) key)"
| "has_in key (JObj kvs) =
     Inr (hasOwn (JObj kvs) key \<or> inherits (JObj kvs) key)"
| "has_in key v = Inl TypeError"

text \<open>
  \<open>ToString\<close> is the conversion a template literal, a property key and \<^verbatim>\<open>join\<close> apply.
  An array converts by \<^verbatim>\<open>join(',')\<close>, where \<^verbatim>\<open>undefined\<close> and \<^verbatim>\<open>null\<close> elements give
  the empty string. A plain object gives \<^verbatim>\<open>[object Object]\<close>; when it has an own
  \<^verbatim>\<open>toString\<close> property, that property is data and cannot be called, the inherited
  \<^verbatim>\<open>valueOf\<close> returns the object itself, and the conversion throws.
\<close>

fun ToString :: "jsval \<Rightarrow> error + string"
  and joinElements :: "jsval list \<Rightarrow> error + string" where
  "ToString JUndefined = Inr ''undefined''"
| "ToString JNull = Inr ''null''"
| "ToString (JBool b) = Inr (if b then ''true'' else ''false'')"
| "ToString (JNum n) = Inr (numToString n)"
| "ToString (JStr s) = Inr s"
| "ToString (JArr xs) = joinElements xs"
| "ToString (JObj kvs) =
     (if ''toString'' \<in> set (map fst kvs) then Inl TypeError else Inr ''[object Object]'')"
| "joinElements [] = Inr []"
| "joinElements (x # xs) =
     (case (if nullish x then Inr [] else ToString x) of
        Inl e \<Rightarrow> Inl e
      | Inr s \<Rightarrow>
          (if xs = [] then Inr s
           else
            (case joinElements xs of
               Inl e \<Rightarrow> Inl e
             | Inr r \<Rightarrow> Inr (s @ '','' @ r))))"

text \<open>The method call \<^verbatim>\<open>v.toString()\<close>: it throws on \<^verbatim>\<open>undefined\<close> and \<^verbatim>\<open>null\<close>.\<close>

definition toStringMethod :: "jsval \<Rightarrow> error + string" where
  "toStringMethod v = (if nullish v then Inl TypeError else ToString v)"

definition isString :: "jsval \<Rightarrow> bool" where
  "isString v = (typeof v = ''string'')"

section \<open>State Value Engine\<close>

text \<open>
  Modelled from the spec: \<^verbatim>\<open>STATE_DELIMITER\<close> is imported from \<^verbatim>\<open>./constants\<close>, which is
  not among the sources; the spec gives the default delimiter as a period.
\<close>

definition STATE_DELIMITER :: string where
  "STATE_DELIMITER = ''.''"

text \<open>
  \<^verbatim>\<open>toStatePath\<close>: an array is returned as it is; anything else is converted by its
  \<^verbatim>\<open>toString()\<close> and split. The \<^verbatim>\<open>catch\<close> builds the message from \<^verbatim>\<open>`${stateId}`\<close>, a
  conversion that can throw in its turn.
\<close>

definition toStatePath :: "jsval \<Rightarrow> string \<Rightarrow> error + jsval list" where
  "toStatePath stateId delimiter =
     (case stateId of
        JArr xs \<Rightarrow> Inr xs
      | _ \<Rightarrow>
        (case toStringMethod stateId of
           Inr s \<Rightarrow> Inr (map JStr (js_split s delimiter))
         | Inl e \<Rightarrow>
            (case ToString stateId of
               Inl e' \<Rightarrow> Inl e'
             | Inr t \<Rightarrow>
                Inl (ParseError (CHR 0x27 # t @ CHR 0x27 # '' is not a valid state path.'')))))"

text \<open>
  \<^verbatim>\<open>pathToStateValue\<close>. Each round of its loop stores one property in the object
  \<^verbatim>\<open>marker\<close> points to, an empty object that the later rounds fill or, in the last
  round, the last segment; \<open>fill statePath i\<close> is the object \<^verbatim>\<open>marker\<close> points to when
  round \<open>i\<close> starts, as the loop leaves it. So \<open>fill statePath 0\<close> is \<^verbatim>\<open>value\<close>. A
  segment used as a key is converted to a property key; the last segment is stored as
  it is.

  For one key the assignment \<^verbatim>\<open>marker[key] = ...\<close> stores no own property:
  \<^verbatim>\<open>__proto__\<close> runs the setter inherited from \<^verbatim>\<open>Object.prototype\<close>. Given an object or
  \<^verbatim>\<open>null\<close> (the type \<^verbatim>\<open>object\<close>), the setter replaces the prototype of \<^verbatim>\<open>marker\<close>, and
  the object built is no data value; so it is in every round but the last, where the
  empty object is assigned and the later rounds go on in it. Given anything else, the
  setter does nothing and \<^verbatim>\<open>marker\<close> stays empty. Every other name, inherited or not,
  becomes an own property.
\<close>

function fill :: "jsval list \<Rightarrow> nat \<Rightarrow> error + jsval" where
  "fill statePath i =
     (if int i < int (length statePath) - 1 then
        (case ToString (statePath ! i) of
           Inl e \<Rightarrow> Inl e
         | Inr key \<Rightarrow>
            (if int i = int (length statePath) - 2 then
               (if key = ''__proto__'' then
                  (if typeof (statePath ! (i + 1)) = ''object'' then Inl Beyond
                   else Inr (JObj []))
                else Inr (JObj [(key, statePath ! (i + 1))]))
             else
              (case fill statePath (i + 1) of
                 Inl e \<Rightarrow> Inl e
               | Inr marker \<Rightarrow>
                  (if key = ''__proto__'' then Inl Beyond
                   else Inr (JObj [(key, marker)])))))
      else Inr (JObj []))"
  by pat_completeness auto
termination
  by (relation "measure (\<lambda>(statePath, i). length statePath - i)") auto

declare fill.simps [simp del]

definition pathToStateValue :: "jsval list \<Rightarrow> error + jsval" where
  "pathToStateValue statePath =
     (if length statePath = 1 then Inr (statePath ! 0) else fill statePath 0)"

definition isStateLike :: "jsval \<Rightarrow> error + bool" where
  "isStateLike state =
     (if typeof state \<noteq> ''object'' then Inr False
      else
       (case has_in ''value'' state of
          Inl e \<Rightarrow> Inl e
        | Inr b1 \<Rightarrow>
           if \<not> b1 then Inr False
           else
            (case has_in ''context'' state of
               Inl e \<Rightarrow> Inl e
             | Inr b2 \<Rightarrow>
                if \<not> b2 then Inr False
                else
                 (case has_in ''event'' state of
                    Inl e \<Rightarrow> Inl e
                  | Inr b3 \<Rightarrow>
                     if \<not> b3 then Inr False
                     else has_in ''_event'' state))))"

definition toStateValue :: "jsval \<Rightarrow> string \<Rightarrow> error + jsval" where
  "toStateValue stateValue delimiter =
     (case isStateLike stateValue of
        Inl e \<Rightarrow> Inl e
      | Inr like \<Rightarrow>
         if like then get stateValue ''value''
         else
          (case stateValue of
             JArr statePath \<Rightarrow> pathToStateValue statePath
           | _ \<Rightarrow>
              if typeof stateValue \<noteq> ''string'' then Inr stateValue
              else
               (case toStatePath stateValue delimiter of
                  Inl e \<Rightarrow> Inl e
                | Inr statePath \<Rightarrow> pathToStateValue statePath)))"

text \<open>
  \<^verbatim>\<open>Array.prototype.every\<close> with a callback that can throw: it stops at the first key the
  callback rejects or throws on.
\<close>

fun every :: "('a \<Rightarrow> error + bool) \<Rightarrow> 'a list \<Rightarrow> error + bool" where
  "every f [] = Inr True"
| "every f (x # xs) =
     (case f x of
        Inl e \<Rightarrow> Inl e
      | Inr b \<Rightarrow> if b then every f xs else Inr False)"

lemma every_cong [fundef_cong]:
  "xs = ys \<Longrightarrow> (\<And>x. x \<in> set ys \<Longrightarrow> f x = g x) \<Longrightarrow> every f xs = every g ys"
  by (induction ys arbitrary: xs) (auto split: sum.splits)

text \<open>
  \<^verbatim>\<open>matchesState\<close>. The recursive call passes no delimiter, so it runs with the default.
  Where the source reads \<^verbatim>\<open>parentStateValue[key]\<close>, the key is one of \<^verbatim>\<open>keys(parentStateValue)\<close>,
  an own property. The read \<^verbatim>\<open>childStateValue[key]\<close> follows \<^verbatim>\<open>key in childStateValue\<close>,
  which an inherited name passes too: then the read is \<open>Beyond\<close>.
\<close>

function matchesState :: "jsval \<Rightarrow> jsval \<Rightarrow> string \<Rightarrow> error + bool" where
  "matchesState parentStateId childStateId delimiter =
     (case toStateValue parentStateId delimiter of
        Inl e \<Rightarrow> Inl e
      | Inr parentStateValue \<Rightarrow>
     (case toStateValue childStateId delimiter of
        Inl e \<Rightarrow> Inl e
      | Inr childStateValue \<Rightarrow>
         if isString childStateValue then
           (if isString parentStateValue
            then Inr (childStateValue = parentStateValue)
            else Inr False)
         else
          (case parentStateValue of
             JStr name \<Rightarrow> has_in name childStateValue
           | _ \<Rightarrow>
             (case keys parentStateValue of
                Inl e \<Rightarrow> Inl e
              | Inr ks \<Rightarrow>
                 every (\<lambda>key.
                   (case has_in key childStateValue of
                      Inl e \<Rightarrow> Inl e
                    | Inr present \<Rightarrow>
                       if \<not> present then Inr False
                       else
                        (case get childStateValue key of
                           Inl e \<Rightarrow> Inl e
                         | Inr sub \<Rightarrow>
                            matchesState (propOf parentStateValue key) sub
                              STATE_DELIMITER))) ks))))"
  by pat_completeness auto



section \<open>Event and Config Normalizer\<close>

text \<open>
  \<^verbatim>\<open>getEventType\<close>: whatever the \<^verbatim>\<open>try\<close> block throws is replaced by the error of the
  \<^verbatim>\<open>catch\<close> block.
\<close>

definition getEventType :: "jsval \<Rightarrow> error + jsval" where
  "getEventType event =
     (if isString event \<or> typeof event = ''number'' then
        (case ToString event of
           Inl e \<Rightarrow> Inl (if e = Beyond then Beyond else EventTypeError)
         | Inr s \<Rightarrow> Inr (JStr s))
      else
        (case get event ''type'' of
           Inl e \<Rightarrow> Inl (if e = Beyond then Beyond else EventTypeError)
         | Inr t \<Rightarrow> Inr t))"

text \<open>
  Object spread \<^verbatim>\<open>{ ...source }\<close> into an object under construction: the own
  enumerable properties of the source are copied in order; a key already present keeps
  its place and takes the new value. Spreading \<^verbatim>\<open>undefined\<close> or \<^verbatim>\<open>null\<close> copies nothing.
\<close>

fun entries :: "jsval \<Rightarrow> (string \<times> jsval) list" where
  "entries (JStr s) = zip (map decimal [0..<length s]) (map (\<lambda>c. JStr [c]) s)"
| "entries (JArr xs) = zip (map decimal [0..<length xs]) xs"
| "entries (JObj kvs) = kvs"
| "entries v = []"

fun put :: "(string \<times> jsval) list \<Rightarrow> string \<Rightarrow> jsval \<Rightarrow> (string \<times> jsval) list" where
  "put [] key v = [(key, v)]"
| "put ((k, w) # kvs) key v = (if k = key then (key, v) # kvs else (k, w) # put kvs key v)"

definition spread :: "(string \<times> jsval) list \<Rightarrow> jsval \<Rightarrow> (string \<times> jsval) list" where
  "spread obj source = fold (\<lambda>(key, v) acc. put acc key v) (entries source) obj"

definition toEventObject :: "jsval \<Rightarrow> jsval \<Rightarrow> jsval" where
  "toEventObject event payload =
     (if isString event then JObj (spread [(''type'', event)] payload) else event)"

definition isSCXMLEvent :: "jsval \<Rightarrow> error + bool" where
  "isSCXMLEvent event =
     (if isString event then Inr False
      else
       (case has_in ''$$type'' event of
          Inl e \<Rightarrow> Inl e
        | Inr present \<Rightarrow>
           if \<not> present then Inr False
           else
            (case get event ''$$type'' of
               Inl e \<Rightarrow> Inl e
             | Inr t \<Rightarrow> Inr (t = JStr ''scxml''))))"

text \<open>
  \<^verbatim>\<open>toSCXMLEvent\<close>. The call \<^verbatim>\<open>toEventObject(event)\<close> passes no payload. A caller that
  gives no \<^verbatim>\<open>scxmlEvent\<close> passes \<open>JUndefined\<close>.
\<close>

definition toSCXMLEvent :: "jsval \<Rightarrow> jsval \<Rightarrow> error + jsval" where
  "toSCXMLEvent event scxmlEvent =
     (case isSCXMLEvent event of
        Inl e \<Rightarrow> Inl e
      | Inr wrapped \<Rightarrow>
         if wrapped then Inr event
         else
          (let eventObject = toEventObject event JUndefined in
           (case get eventObject ''type'' of
              Inl e \<Rightarrow> Inl e
            | Inr name \<Rightarrow>
               Inr (JObj (spread
                 [(''name'', name), (''data'', eventObject),
                  (''$$type'', JStr ''scxml''), (''type'', JStr ''external'')]
                 scxmlEvent)))))"

definition toArrayStrict :: "jsval \<Rightarrow> jsval" where
  "toArrayStrict v = (case v of JArr xs \<Rightarrow> v | _ \<Rightarrow> JArr [v])"

definition toArray :: "jsval \<Rightarrow> jsval" where
  "toArray v = (if v = JUndefined then JArr [] else toArrayStrict v)"

text \<open>
  \<^verbatim>\<open>normalizeTarget\<close>. \<^verbatim>\<open>TARGETLESS_KEY\<close> is imported from \<^verbatim>\<open>./constants\<close>, which is not
  among the sources: the string it names is a parameter of the model.
\<close>

definition normalizeTarget :: "string \<Rightarrow> jsval \<Rightarrow> jsval" where
  "normalizeTarget TARGETLESS_KEY target =
     (if target = JUndefined \<or> target = JStr TARGETLESS_KEY then JUndefined
      else toArray target)"

text \<open>
  \<^verbatim>\<open>toObserver\<close> is given handlers, which are functions. It only asks for the type of
  its first argument and whether the other two are truthy, so its values are: the
  primitives, a function of the caller (told apart by a tag), the function \<^verbatim>\<open>noop\<close> that
  \<^verbatim>\<open>toObserver\<close> creates, and an object of such values.
\<close>

datatype oval =
    OUndefined
  | ONull
  | OBool bool
  | ONum int
  | OStr string
  | OFun nat
  | ONoop
  | OObj "(string \<times> oval) list"

fun otypeof :: "oval \<Rightarrow> string" where
  "otypeof OUndefined = ''undefined''"
| "otypeof ONull = ''object''"
| "otypeof (OBool b) = ''boolean''"
| "otypeof (ONum n) = ''number''"
| "otypeof (OStr s) = ''string''"
| "otypeof (OFun f) = ''function''"
| "otypeof ONoop = ''function''"
| "otypeof (OObj fields) = ''object''"

fun otruthy :: "oval \<Rightarrow> bool" where
  "otruthy OUndefined = False"
| "otruthy ONull = False"
| "otruthy (OBool b) = b"
| "otruthy (ONum n) = (n \<noteq> 0)"
| "otruthy (OStr s) = (s \<noteq> [])"
| "otruthy v = True"

definition toObserver :: "oval \<Rightarrow> oval \<Rightarrow> oval \<Rightarrow> oval" where
  "toObserver nextHandler errorHandler completionHandler =
     (if otypeof nextHandler = ''object'' then nextHandler
      else OObj
        [(''next'', nextHandler),
         (''error'', if otruthy errorHandler then errorHandler else ONoop),
         (''complete'', if otruthy completionHandler then completionHandler else ONoop)])"

text \<open>
  Modelled from the spec: \<^verbatim>\<open>pathJoin\<close> is not among the sources; the spec uses it for
  the serialization of a path, its segments joined by the delimiter
  (\<^verbatim>\<open>Array.prototype.join\<close>).
\<close>

fun pathJoin :: "string list \<Rightarrow> string \<Rightarrow> string" where
  "pathJoin [] d = []"
| "pathJoin [x] d = x"
| "pathJoin (x # y # ys) d = x @ d @ pathJoin (y # ys) d"

section \<open>Predicates of the properties\<close>

text \<open>
  A state value is atomic (a string) or compound (an object of regions).
  \<open>nonEmptyRegions v\<close>: \<open>v\<close> is such a value and no compound value in it, at any depth,
  has an empty mapping.
\<close>

fun nonEmptyRegions :: "jsval \<Rightarrow> bool" where
  "nonEmptyRegions (JStr s) = True"
| "nonEmptyRegions (JObj regions) =
     (regions \<noteq> [] \<and> list_all (\<lambda>region. nonEmptyRegions (snd region)) regions)"
| "nonEmptyRegions v = False"



section \<open>Termination of the recursive functions\<close>

text \<open>
  \<^verbatim>\<open>matchesState\<close> recurses into the properties of the normalized parent, which for a
  string or an array is a value the call has built. The measure \<open>mu\<close> does not grow
  under \<open>toStateValue\<close> and falls from a value to each of its properties.
\<close>

fun mu :: "jsval \<Rightarrow> nat" where
  "mu JUndefined = 0"
| "mu JNull = 1"
| "mu (JBool b) = 1"
| "mu (JNum n) = 1"
| "mu (JStr s) = 2 * length s + 1"
| "mu (JArr xs) = 2 + sum_list (map (\<lambda>x. 2 + mu x) xs)"
| "mu (JObj kvs) = 1 + sum_list (map (\<lambda>p. 1 + mu (snd p)) kvs)"

lemma mu_elem: "x \<in> set xs \<Longrightarrow> mu x + 2 \<le> sum_list (map (\<lambda>x. 2 + mu x) xs)"
  by (induction xs) auto

lemma mu_entry: "map_of kvs key = Some v \<Longrightarrow> mu v < sum_list (map (\<lambda>p. 1 + mu (snd p)) kvs)"
  by (induction kvs) (auto split: if_splits)

lemma indexKey_less: "indexKey key n = Some i \<Longrightarrow> i < n"
  by (auto simp: indexKey_def find_Some_iff)

lemma mu_propOf: "\<not> nullish p \<Longrightarrow> \<not> isString p \<Longrightarrow> mu (propOf p key) < mu p"
proof (cases p)
  case (JArr xs)
  show ?thesis
  proof (cases "indexKey key (length xs)")
    case None
    with JArr show ?thesis by simp
  next
    case (Some i)
    then have "xs ! i \<in> set xs" by (simp add: indexKey_less)
    from mu_elem [OF this] Some JArr show ?thesis by simp
  qed
next
  case (JObj kvs)
  then show ?thesis
    by (auto split: option.splits dest: mu_entry)
qed (simp_all add: nullish_def isString_def)

lemma fill_short: "\<not> Suc i < length xs \<Longrightarrow> fill xs i = Inr (JObj [])"
  by (auto simp: fill.simps [of xs i])

lemma fill_mu:
  "fill xs i = Inr p \<Longrightarrow> Suc i < length xs \<Longrightarrow> mu p \<le> 2 * (length xs - Suc i) + mu (last xs)"
proof (induction xs i arbitrary: p rule: fill.induct)
  case (1 statePath i)
  show ?case
  proof (cases "Suc (Suc i) = length statePath")
    case True
    then have "last statePath = statePath ! Suc i"
      by (metis "1.prems"(2) diff_Suc_1 last_conv_nth length_0_conv not_less0)
    with True "1.prems" show ?thesis
      by (auto simp: fill.simps [of statePath i] split: sum.splits if_splits)
  next
    case False
    with "1.prems" obtain key m where k: "ToString (statePath ! i) = Inr key"
      and m: "fill statePath (i + 1) = Inr m" and p: "p = JObj [(key, m)]"
      by (auto simp: fill.simps [of statePath i] split: sum.splits if_splits)
    from False "1.prems"(2) have "Suc (i + 1) < length statePath" by simp
    from "1.IH" [OF _ k _ m this] False "1.prems"(2)
    have "mu m \<le> 2 * (length statePath - Suc (i + 1)) + mu (last statePath)" by auto
    with p "1.prems"(2) False show ?thesis by auto
  qed
qed

lemma pathToStateValue_Nil: "pathToStateValue [] = Inr (JObj [])"
  by (simp add: pathToStateValue_def fill_short)

lemma pathToStateValue_mu:
  assumes "pathToStateValue xs = Inr p" and "xs \<noteq> []"
  shows "mu p \<le> 2 * (length xs - 1) + mu (last xs)"
proof (cases "length xs = 1")
  case True
  then have "last xs = xs ! 0" by (metis One_nat_def assms(2) diff_Suc_1 last_conv_nth)
  with True assms show ?thesis by (simp add: pathToStateValue_def)
next
  case False
  with assms(2) have "Suc 0 < length xs" by (cases xs) auto
  with False assms(1) fill_mu [of xs 0 p] show ?thesis
    by (simp add: pathToStateValue_def)
qed

lemma splitAt_nonempty: "splitAt d ds acc s \<noteq> []"
  by (induction d ds acc s rule: splitAt.induct) auto

lemma splitAt_bound:
  "length (splitAt d ds acc s) - 1 + length (last (splitAt d ds acc s)) \<le> length acc + length s"
proof (induction d ds acc s rule: splitAt.induct)
  case (1 d ds acc)
  show ?case by simp
next
  case (2 d ds acc c cs)
  show ?case
  proof (cases "take (Suc (length ds)) (c # cs) = d # ds")
    case True
    let ?r = "splitAt d ds [] (drop (length ds) cs)"
    from "2.IH"(1) [OF True]
    have "length ?r - 1 + length (last ?r) \<le> length cs" by simp
    moreover have "?r \<noteq> []" by (rule splitAt_nonempty)
    ultimately show ?thesis using True
      by (cases ?r) (auto split: if_splits)
  next
    case False
    have "splitAt d ds acc (c # cs) = splitAt d ds (c # acc) cs"
      by (simp only: splitAt.simps False if_False)
    with "2.IH"(2) [OF False] show ?thesis by simp
  qed
qed

lemma js_split_bound:
  assumes "js_split s d \<noteq> []"
  shows "length (js_split s d) - 1 + length (last (js_split s d)) \<le> length s"
proof (cases d)
  case Nil
  with assms have "s \<noteq> []" by (auto simp: js_split_def)
  with Nil show ?thesis by (simp add: js_split_def last_map)
next
  case (Cons d0 ds)
  with splitAt_bound [of d0 ds "[]" s] show ?thesis by (simp add: js_split_def)
qed

lemma sum_mu_last:
  "xs \<noteq> [] \<Longrightarrow> 2 * length xs + mu (last xs) \<le> sum_list (map (\<lambda>x. 2 + mu x) xs)"
  by (induction xs) auto

lemma isStateLike_True:
  "isStateLike v = Inr True \<Longrightarrow> \<not> nullish v \<and> \<not> isString v"
  by (cases v) (auto simp: isStateLike_def nullish_def isString_def split: if_splits)

lemma toStateValue_mu:
  assumes "toStateValue v d = Inr p"
  shows "mu p \<le> mu v"
proof -
  from assms obtain like where like: "isStateLike v = Inr like"
    by (auto simp: toStateValue_def split: sum.splits)
  show ?thesis
  proof (cases like)
    case True
    with like have nn: "\<not> nullish v \<and> \<not> isString v" by (simp add: isStateLike_True)
    with assms like True have "p = propOf v ''value''"
      by (simp add: toStateValue_def get_def)
    with mu_propOf [of v "''value''"] nn show ?thesis by simp
  next
    case False
    show ?thesis
    proof (cases v)
      case (JArr xs)
      with assms like False have p: "pathToStateValue xs = Inr p"
        by (simp add: toStateValue_def)
      show ?thesis
      proof (cases "xs = []")
        case True
        with p JArr show ?thesis by (auto simp: pathToStateValue_Nil)
      next
        case nonempty: False
        from pathToStateValue_mu [OF p nonempty] sum_mu_last [OF nonempty] JArr
        show ?thesis by simp
      qed
    next
      case (JStr s)
      with assms like False
      have p: "pathToStateValue (map JStr (js_split s d)) = Inr p"
        by (simp add: toStateValue_def toStatePath_def toStringMethod_def nullish_def)
      show ?thesis
      proof (cases "js_split s d = []")
        case True
        with p JStr show ?thesis by (auto simp: pathToStateValue_Nil)
      next
        case nonempty: False
        then have "map JStr (js_split s d) \<noteq> []" by simp
        from pathToStateValue_mu [OF p this] js_split_bound [OF nonempty] nonempty JStr
        show ?thesis by (simp add: last_map)
      qed
    qed (use assms like False in \<open>auto simp: toStateValue_def\<close>)
  qed
qed

lemma matchesState_decreases:
  assumes "toStateValue parentStateId delimiter = Inr p" and "keys p = Inr ks"
    and "\<not> isString p"
  shows "mu (propOf p key) < mu parentStateId"
proof -
  from assms(2) have "\<not> nullish p" by (auto simp: keys_def split: if_splits)
  from mu_propOf [OF this assms(3), of key] toStateValue_mu [OF assms(1)]
  show ?thesis by simp
qed

termination matchesState
  apply (relation "measure (\<lambda>(parentStateId, childStateId, delimiter). mu parentStateId)")
        apply simp
  subgoal premises prems
    using matchesState_decreases [OF prems(1) prems(5)] prems(4) by (simp add: isString_def)
  subgoal premises prems
    using matchesState_decreases [OF prems(1) prems(5)] prems(4) by (simp add: isString_def)
  subgoal premises prems
    using matchesState_decreases [OF prems(1) prems(5)] prems(4) by (simp add: isString_def)
  subgoal premises prems
    using matchesState_decreases [OF prems(1) prems(5)] prems(4) by (simp add: isString_def)
  subgoal premises prems
    using matchesState_decreases [OF prems(1) prems(5)] prems(4) by (simp add: isString_def)
  subgoal premises prems
    using matchesState_decreases [OF prems(1) prems(5)] prems(4) by (simp add: isString_def)
  done

declare matchesState.simps [simp del]





section \<open>Properties\<close>

lemma toStringMethod_simps:
  "toStringMethod JUndefined = Inl TypeError"
  "toStringMethod JNull = Inl TypeError"
  "toStringMethod (JBool b) = Inr (if b then ''true'' else ''false'')"
  "toStringMethod (JNum n) = Inr (numToString n)"
  "toStringMethod (JStr s) = Inr s"
  "toStringMethod (JObj kvs) =
     (if ''toString'' \<in> set (map fst kvs) then Inl TypeError else Inr ''[object Object]'')"
  by (simp_all add: toStringMethod_def nullish_def)

subsection \<open>toStatePath and its error\<close>

text \<open>
  C4, as stated, asks for a \<open>ParseError\<close> on a number. The code converts the number
  with \<^verbatim>\<open>toString()\<close> and splits the result: \<^verbatim>\<open>toStatePath(5, '.')\<close> is \<^verbatim>\<open>['5']\<close>.
\<close>

theorem toStatePath_number_counterexample:
  "toStatePath (JNum 5) ''.'' = Inr [JStr ''5'']"
  by (simp add: toStatePath_def toStringMethod_simps numToString_def decimal.simps
      digit_def js_split_def)

text \<open>
  C4, amended: \<^verbatim>\<open>toStatePath\<close> returns an array as it is and a string split on the
  delimiter. It raises the \<open>ParseError\<close> exactly on \<^verbatim>\<open>undefined\<close> and \<^verbatim>\<open>null\<close>. A
  number, a boolean or an object that is not an array is not rejected: its
  \<^verbatim>\<open>toString()\<close> is split on the delimiter (\<^verbatim>\<open>[object Object]\<close> for an object), and an
  object with an own \<^verbatim>\<open>toString\<close> property, which cannot be called, ends in a
  \<open>TypeError\<close>.
\<close>

theorem toStatePath_shapes:
  "toStatePath (JArr xs) d = Inr xs \<and>
   toStatePath (JStr s) d = Inr (map JStr (js_split s d)) \<and>
   ((\<exists>msg. toStatePath v d = Inl (ParseError msg)) = (v = JUndefined \<or> v = JNull)) \<and>
   toStatePath (JNum n) d = Inr (map JStr (js_split (numToString n) d)) \<and>
   toStatePath (JBool b) d = Inr (map JStr (js_split (if b then ''true'' else ''false'') d)) \<and>
   toStatePath (JObj kvs) d =
     (if ''toString'' \<in> set (map fst kvs) then Inl TypeError
      else Inr (map JStr (js_split ''[object Object]'' d)))"
  by (cases v) (auto simp: toStatePath_def toStringMethod_simps)

subsection \<open>getEventType and its error\<close>

text \<open>
  C5, as stated, asks for an \<open>EventTypeError\<close> on an object without a \<^verbatim>\<open>type\<close> field.
  The code reads the missing property and returns \<^verbatim>\<open>undefined\<close>.
\<close>

theorem getEventType_object_counterexample:
  "getEventType (JObj []) = Inr JUndefined"
  by (simp add: getEventType_def isString_def get_def nullish_def)

text \<open>
  C5, amended: \<^verbatim>\<open>getEventType\<close> returns a string event as it is and a number event
  converted to a string; for an object it returns the value of the \<^verbatim>\<open>type\<close> property,
  which is \<^verbatim>\<open>undefined\<close> when the object has none (a boolean gives \<^verbatim>\<open>undefined\<close> too).
  It raises, and then the \<open>EventTypeError\<close>, exactly on \<^verbatim>\<open>undefined\<close> and \<^verbatim>\<open>null\<close>.
\<close>

theorem getEventType_shapes:
  "getEventType (JStr s) = Inr (JStr s) \<and>
   getEventType (JNum n) = Inr (JStr (numToString n)) \<and>
   getEventType (JObj fields) =
     Inr (case map_of fields ''type'' of Some t \<Rightarrow> t | None \<Rightarrow> JUndefined) \<and>
   getEventType (JBool b) = Inr JUndefined \<and>
   ((\<exists>e. getEventType event = Inl e) = (event = JUndefined \<or> event = JNull)) \<and>
   ((getEventType event = Inl EventTypeError) = (event = JUndefined \<or> event = JNull))"
  by (cases event) (auto simp: getEventType_def isString_def get_def nullish_def)

subsection \<open>toObserver\<close>

text \<open>The record \<^verbatim>\<open>toObserver\<close> builds holds its first argument, so it is not that argument.\<close>

lemma record_is_new: "nextHandler \<noteq> OObj ((key, nextHandler) # fields)"
proof
  assume "nextHandler = OObj ((key, nextHandler) # fields)"
  then have "size nextHandler = size (OObj ((key, nextHandler) # fields))" by simp
  then show False by simp
qed

text \<open>
  C10, as stated, has the record built only when the first argument is a function. The
  code tests for the type \<^verbatim>\<open>object\<close> alone, so it builds the record for
  \<^verbatim>\<open>undefined\<close> too.
\<close>

theorem toObserver_undefined_counterexample:
  "toObserver OUndefined OUndefined OUndefined =
     OObj [(''next'', OUndefined), (''error'', ONoop), (''complete'', ONoop)] \<and>
   otypeof OUndefined \<noteq> ''function''"
  by (simp add: toObserver_def)

text \<open>
  C10, amended: \<^verbatim>\<open>toObserver\<close> returns a first argument of type \<^verbatim>\<open>object\<close> as it is,
  whatever fields it has or lacks; for every other first argument it builds the record
  of \<^verbatim>\<open>next\<close>, \<^verbatim>\<open>error\<close> and \<^verbatim>\<open>complete\<close>, where a handler that was not given is
  \<^verbatim>\<open>noop\<close>: for a function, and for \<^verbatim>\<open>undefined\<close> or another primitive as well. The record
  is built exactly when the type of the first argument is not \<^verbatim>\<open>object\<close>.
\<close>

theorem toObserver_object_or_not:
  "(otypeof nextHandler = ''object'' \<longrightarrow>
      toObserver nextHandler errorHandler completionHandler = nextHandler) \<and>
   (otypeof nextHandler \<noteq> ''object'' \<longrightarrow>
      toObserver nextHandler errorHandler completionHandler =
        OObj [(''next'', nextHandler),
              (''error'', if otruthy errorHandler then errorHandler else ONoop),
              (''complete'', if otruthy completionHandler then completionHandler else ONoop)]) \<and>
   ((toObserver nextHandler errorHandler completionHandler =
        OObj [(''next'', nextHandler),
              (''error'', if otruthy errorHandler then errorHandler else ONoop),
              (''complete'', if otruthy completionHandler then completionHandler else ONoop)])
      = (otypeof nextHandler \<noteq> ''object''))"
  using record_is_new [of nextHandler "''next''"] by (auto simp: toObserver_def)

theorem toObserver_object_or_not_witness:
  "toObserver (OObj [(''next'', OFun 1)]) (OFun 2) OUndefined = OObj [(''next'', OFun 1)] \<and>
   toObserver ONull OUndefined OUndefined = ONull \<and>
   toObserver (OFun 1) OUndefined (OFun 3) =
     OObj [(''next'', OFun 1), (''error'', ONoop), (''complete'', OFun 3)] \<and>
   toObserver (OStr ''x'') (ONum 0) (OFun 3) =
     OObj [(''next'', OStr ''x''), (''error'', ONoop), (''complete'', OFun 3)]"
  using toObserver_object_or_not [of "OObj [(''next'', OFun 1)]" "OFun 2" OUndefined]
    toObserver_object_or_not [of ONull OUndefined OUndefined]
    toObserver_object_or_not [of "OFun 1" OUndefined "OFun 3"]
    toObserver_object_or_not [of "OStr ''x''" "ONum 0" "OFun 3"]
  by simp

subsection \<open>toEventObject\<close>

text \<open>What a spread leaves in the object: the properties of the source over those before.\<close>

lemma map_of_put: "map_of (put kvs key v) = (map_of kvs)(key \<mapsto> v)"
  by (induction kvs key v rule: put.induct) auto

lemma map_of_fold_put:
  "map_of (fold (\<lambda>(key, v) acc. put acc key v) es obj) = map_of obj ++ map_of (rev es)"
proof (induction es arbitrary: obj)
  case Nil
  show ?case by simp
next
  case (Cons e es)
  obtain key v where e: "e = (key, v)" by (cases e)
  have "map_of (fold (\<lambda>(key, v) acc. put acc key v) (e # es) obj)
      = map_of (put obj key v) ++ map_of (rev es)"
    using Cons.IH [of "put obj key v"] e by simp
  also have "\<dots> = map_of obj ++ map_of (rev (e # es))"
    using e by (simp add: map_of_put)
  finally show ?case .
qed

lemma map_of_spread: "map_of (spread obj source) = map_of obj ++ map_of (rev (entries source))"
  by (simp add: spread_def map_of_fold_put)

lemma spread_nullish [simp]: "spread obj JUndefined = obj" "spread obj JNull = obj"
  by (simp_all add: spread_def)

text \<open>
  C6, as stated, has a number event turned into \<^verbatim>\<open>{ type: '5' }\<close>. The code tests
  \<^verbatim>\<open>isString(event)\<close> only, and a number is returned as it came.
\<close>

theorem toEventObject_number_counterexample:
  "toEventObject (JNum 5) JUndefined = JNum 5"
  by (simp add: toEventObject_def isString_def)

text \<open>
  C6, amended: \<^verbatim>\<open>toEventObject\<close> turns a string event into
  \<^verbatim>\<open>{ type: event, ...payload }\<close>, whose properties are those of the payload over the
  \<^verbatim>\<open>type\<close> field (and the \<^verbatim>\<open>type\<close> field alone when no payload is given). Every other
  input is returned unchanged and the payload ignored: a structured event, and a number
  as well, which is not converted.
\<close>

theorem toEventObject_shapes:
  "toEventObject (JStr s) payload = JObj (spread [(''type'', JStr s)] payload) \<and>
   map_of (spread [(''type'', JStr s)] payload) =
     [''type'' \<mapsto> JStr s] ++ map_of (rev (entries payload)) \<and>
   toEventObject (JStr s) JUndefined = JObj [(''type'', JStr s)] \<and>
   (\<not> isString event \<longrightarrow> toEventObject event payload = event)"
  by (simp add: toEventObject_def isString_def map_of_spread)

theorem toEventObject_shapes_witness:
  "\<not> isString (JObj [(''type'', JStr ''go''), (''id'', JNum 1)]) \<and>
   toEventObject (JObj [(''type'', JStr ''go''), (''id'', JNum 1)]) (JObj [(''id'', JNum 2)]) =
     JObj [(''type'', JStr ''go''), (''id'', JNum 1)] \<and>
   \<not> isString (JNum 5) \<and>
   toEventObject (JNum 5) (JObj [(''id'', JNum 2)]) = JNum 5"
  using toEventObject_shapes [where event = "JObj [(''type'', JStr ''go''), (''id'', JNum 1)]"
      and payload = "JObj [(''id'', JNum 2)]"]
    toEventObject_shapes [where event = "JNum 5" and payload = "JObj [(''id'', JNum 2)]"]
  by (simp add: isString_def)

subsection \<open>normalizeTarget\<close>

text \<open>
  C7, as stated, has every array input mapped to an array of length at least one. The
  empty array is returned as it is.
\<close>

theorem normalizeTarget_empty_array_counterexample:
  "normalizeTarget '''' (JArr []) = JArr []"
  by (simp add: normalizeTarget_def toArray_def toArrayStrict_def)

text \<open>
  C7, amended: \<^verbatim>\<open>normalizeTarget\<close> maps \<^verbatim>\<open>undefined\<close> and the targetless sentinel to
  \<^verbatim>\<open>undefined\<close>, returns an array input as it is, whatever its length, and maps every
  other input to the array of length one that holds it.
\<close>

theorem normalizeTarget_shapes:
  "normalizeTarget TARGETLESS_KEY JUndefined = JUndefined \<and>
   normalizeTarget TARGETLESS_KEY (JStr TARGETLESS_KEY) = JUndefined \<and>
   normalizeTarget TARGETLESS_KEY (JArr xs) = JArr xs \<and>
   (target \<noteq> JUndefined \<and> target \<noteq> JStr TARGETLESS_KEY \<and> (\<forall>ys. target \<noteq> JArr ys) \<longrightarrow>
      normalizeTarget TARGETLESS_KEY target = JArr [target])"
  by (cases target) (auto simp: normalizeTarget_def toArray_def toArrayStrict_def)

theorem normalizeTarget_shapes_witness:
  "normalizeTarget '''' (JStr ''idle'') = JArr [JStr ''idle''] \<and>
   normalizeTarget '''' (JArr [JStr ''a'', JStr ''b'']) = JArr [JStr ''a'', JStr ''b''] \<and>
   normalizeTarget '''' (JStr '''') = JUndefined"
  using normalizeTarget_shapes [where TARGETLESS_KEY = "[]" and xs = "[JStr ''a'', JStr ''b'']"
      and target = "JStr ''idle''"]
  by simp

subsection \<open>pathToStateValue\<close>

lemma fill_strings:
  assumes "''__proto__'' \<notin> set (butlast p)"
  shows "Suc i < length p \<Longrightarrow> \<exists>v. fill (map JStr p) i = Inr v \<and> nonEmptyRegions v"
proof (induction "length p - i" arbitrary: i)
  case 0
  then show ?case by simp
next
  case (Suc n)
  from Suc.prems have "butlast p ! i \<in> set (butlast p)" by (intro nth_mem) simp
  with Suc.prems assms have key: "p ! i \<noteq> ''__proto__''" by (auto simp: nth_butlast)
  show ?case
  proof (cases "Suc (Suc i) = length p")
    case True
    with key show ?thesis by (simp add: fill.simps [of "map JStr p" i])
  next
    case False
    with Suc.prems have next_round: "Suc (Suc i) < length p" by simp
    moreover from Suc.hyps(2) have "n = length p - Suc i" by simp
    ultimately obtain v where "fill (map JStr p) (Suc i) = Inr v" and "nonEmptyRegions v"
      using Suc.hyps(1) [of "Suc i"] by blast
    with False next_round key show ?thesis by (simp add: fill.simps [of "map JStr p" i])
  qed
qed

text \<open>
  C8, as stated, covers every list of strings. For the empty list the loop does not
  run and the result is the object with no region. The same object comes out of the
  path \<^verbatim>\<open>['__proto__', 'a']\<close>: there the one assignment of the loop runs the prototype
  setter, which stores nothing.
\<close>

theorem pathToStateValue_empty_path_counterexample:
  "pathToStateValue (map JStr []) = Inr (JObj []) \<and>
   pathToStateValue (map JStr [''__proto__'', ''a'']) = Inr (JObj []) \<and>
   \<not> nonEmptyRegions (JObj [])"
  by (simp add: pathToStateValue_def fill.simps)

text \<open>
  C8, amended: for every list of strings that is not empty and has no segment
  \<^verbatim>\<open>__proto__\<close> before its last, \<^verbatim>\<open>pathToStateValue\<close> returns an atomic value or a
  compound value whose mapping has at least one key at every level. The empty path
  gives the object with no region; what a path with such a segment gives is left open
  here.
\<close>

theorem pathToStateValue_regions_nonempty:
  assumes "p \<noteq> []" and "''__proto__'' \<notin> set (butlast p)"
  shows "\<exists>v. pathToStateValue (map JStr p) = Inr v \<and> nonEmptyRegions v"
proof (cases "length p = 1")
  case True
  then obtain s where "p = [s]" by (cases p) auto
  then show ?thesis by (simp add: pathToStateValue_def)
next
  case False
  with assms(1) have "Suc 0 < length p" by (cases p) auto
  from fill_strings [OF assms(2) this] False show ?thesis by (simp add: pathToStateValue_def)
qed

theorem pathToStateValue_regions_nonempty_witness:
  "[''a'', ''b'', ''__proto__''] \<noteq> [] \<and>
   ''__proto__'' \<notin> set (butlast [''a'', ''b'', ''__proto__'']) \<and>
   (\<exists>v. pathToStateValue (map JStr [''a'', ''b'', ''__proto__'']) = Inr v \<and> nonEmptyRegions v)"
  using pathToStateValue_regions_nonempty [of "[''a'', ''b'', ''__proto__'']"] by simp

text \<open>
  Behind a segment \<^verbatim>\<open>__proto__\<close> the loop goes on in the object it has made the
  prototype, and what it returns has no own property at that level: \<^verbatim>\<open>{a: {}}\<close> here.
\<close>

lemma pathToStateValue_proto_segment:
  "pathToStateValue (map JStr [''a'', ''__proto__'', ''b'']) = Inr (JObj [(''a'', JObj [])])"
  by (simp add: pathToStateValue_def fill.simps)

subsection \<open>The round trip of a path\<close>

lemma splitAt_char_last:
  "c \<notin> set seg \<Longrightarrow> splitAt c [] acc seg = [rev acc @ seg]"
  by (induction seg arbitrary: acc) auto

lemma splitAt_char_segment:
  "c \<notin> set seg \<Longrightarrow> splitAt c [] acc (seg @ c # rest) = (rev acc @ seg) # splitAt c [] [] rest"
  by (induction seg arbitrary: acc) auto

lemma js_split_pathJoin:
  "p \<noteq> [] \<Longrightarrow> \<forall>seg \<in> set p. c \<notin> set seg \<Longrightarrow> js_split (pathJoin p [c]) [c] = p"
proof (induction p "[c]" rule: pathJoin.induct)
  case 1
  then show ?case by simp
next
  case (2 x)
  then show ?case by (simp add: js_split_def splitAt_char_last)
next
  case (3 x y ys)
  then have "splitAt c [] [] (pathJoin (y # ys) [c]) = y # ys" by (simp add: js_split_def)
  with "3.prems" show ?case
    using splitAt_char_segment [of c x "[]" "pathJoin (y # ys) [c]"] by (simp add: js_split_def)
qed

text \<open>
  C9, as stated, covers every path without a segment that contains the delimiter. The
  empty path is one; it is serialized as the empty string, which splits into the path
  of one empty segment.
\<close>

theorem path_round_trip_empty_counterexample:
  "toStatePath (JStr (pathJoin [] ''.'')) ''.'' = Inr [JStr ''''] \<and>
   toStatePath (JStr (pathJoin [] ''.'')) ''.'' \<noteq> Inr (map JStr [])"
  by (simp add: toStatePath_def toStringMethod_simps js_split_def)

text \<open>
  C9, amended: for every path that is not empty, and a delimiter of one character that
  occurs in no segment, \<^verbatim>\<open>toStatePath(pathJoin(p, d), d)\<close> is \<open>p\<close> again.
\<close>

theorem path_round_trip:
  assumes "p \<noteq> []" and "\<forall>seg \<in> set p. c \<notin> set seg"
  shows "toStatePath (JStr (pathJoin p [c])) [c] = Inr (map JStr p)"
  using js_split_pathJoin [OF assms] by (simp add: toStatePath_def toStringMethod_simps)

theorem path_round_trip_witness:
  "toStatePath (JStr (pathJoin [''a'', ''bc'', ''''] ''.'')) ''.'' = Inr (map JStr [''a'', ''bc'', ''''])"
  using path_round_trip [of "[''a'', ''bc'', '''']" "CHR ''.''"] by simp

text \<open>
  The delimiter has to be one character: with a longer one, an occurrence can start in
  one segment and end in the delimiter behind it.
\<close>

lemma long_delimiter_breaks_round_trip:
  "toStatePath (JStr (pathJoin [''a'', ''x''] ''aa'')) ''aa'' = Inr [JStr '''', JStr ''ax'']"
  by (simp add: toStatePath_def toStringMethod_simps js_split_def)

subsection \<open>toStatePaths\<close>









subsection \<open>matchesState\<close>

lemma toStateValue_atom: "toStateValue (JStr ''a'') ''.'' = Inr (JStr ''a'')"
  by (simp add: toStateValue_def isStateLike_def toStatePath_def toStringMethod_simps
      js_split_def pathToStateValue_def)

lemma toStateValue_compound:
  "toStateValue (JObj [(''a'', JStr ''b'')]) ''.'' = Inr (JObj [(''a'', JStr ''b'')])"
  by (simp add: toStateValue_def isStateLike_def)

text \<open>
  What \<^verbatim>\<open>matchesState\<close> does on normalized arguments. With an atomic actual value the
  result is true exactly when the queried value is the same atomic value. With a
  compound actual value and an atomic queried value the result is what \<^verbatim>\<open>in\<close> answers:
  true for a key of the actual value, and true as well for each name the actual value
  inherits from \<^verbatim>\<open>Object.prototype\<close>.
\<close>

lemma matchesState_normalized:
  assumes "toStateValue queried delimiter = Inr q"
    and "toStateValue actual delimiter = Inr a"
  shows "(a = JStr name \<longrightarrow> matchesState queried actual delimiter = Inr (q = JStr name)) \<and>
         (a = JObj regions \<and> q = JStr name \<longrightarrow>
            matchesState queried actual delimiter =
              Inr (name \<in> set (map fst regions) \<or> name \<in> set objectPrototypeNames)) \<and>
         matchesState (JStr ''a'') (JObj [(''a'', JStr ''b'')]) STATE_DELIMITER = Inr True \<and>
         matchesState (JObj [(''a'', JStr ''b'')]) (JStr ''a'') STATE_DELIMITER = Inr False"
proof -
  have atomic: "matchesState queried actual delimiter = Inr (q = JStr name)" if "a = JStr name"
    using assms that by (cases q) (auto simp: matchesState.simps [of queried actual] isString_def)
  have ancestor: "matchesState queried actual delimiter =
      Inr (name \<in> set (map fst regions) \<or> name \<in> set objectPrototypeNames)"
    if "a = JObj regions" and "q = JStr name"
    using assms that
    by (auto simp: matchesState.simps [of queried actual] isString_def inherits_def)
  have "matchesState (JStr ''a'') (JObj [(''a'', JStr ''b'')]) STATE_DELIMITER = Inr True"
    by (simp add: matchesState.simps [of "JStr ''a''"] STATE_DELIMITER_def
        toStateValue_atom toStateValue_compound isString_def)
  moreover
  have "matchesState (JObj [(''a'', JStr ''b'')]) (JStr ''a'') STATE_DELIMITER = Inr False"
    by (simp add: matchesState.simps [of "JObj [(''a'', JStr ''b'')]"] STATE_DELIMITER_def
        toStateValue_atom toStateValue_compound isString_def)
  ultimately show ?thesis using atomic ancestor by blast
qed

text \<open>
  C1 says that with a compound actual value and an atomic queried value the result is
  true exactly when the queried name is one of the keys of the actual value. The code
  asks \<^verbatim>\<open>parentStateValue in childStateValue\<close>, which is true for an inherited name
  too: \<^verbatim>\<open>matchesState('constructor', {a: 'b'})\<close> is true, and \<^verbatim>\<open>constructor\<close> is no key of
  \<^verbatim>\<open>{a: 'b'}\<close>.
\<close>

theorem matchesState_inherited_name:
  "matchesState (JStr ''constructor'') (JObj [(''a'', JStr ''b'')]) STATE_DELIMITER = Inr True \<and>
   ''constructor'' \<notin> set (ownKeys (JObj [(''a'', JStr ''b'')]))"
proof -
  have "toStateValue (JStr ''constructor'') ''.'' = Inr (JStr ''constructor'')"
    by (simp add: toStateValue_def isStateLike_def toStatePath_def toStringMethod_simps
        js_split_def pathToStateValue_def)
  then show ?thesis
    by (simp add: matchesState.simps [of "JStr ''constructor''"] STATE_DELIMITER_def
        toStateValue_compound isString_def inherits_def objectPrototypeNames_def)
qed

subsection \<open>toSCXMLEvent\<close>

lemma isSCXMLEvent_wrapped:
  "isSCXMLEvent (JObj [(''name'', name), (''data'', eventObject),
     (''$$type'', JStr ''scxml''), (''type'', JStr ''external'')]) = Inr True"
  by (simp add: isSCXMLEvent_def isString_def get_def nullish_def)

text \<open>
  C2: an event that satisfies \<^verbatim>\<open>isSCXMLEvent\<close> is returned by \<^verbatim>\<open>toSCXMLEvent\<close> as it
  is, whatever the overrides; and wrapping twice is wrapping once, for every event: if
  the first call throws, so does the chain, and otherwise the second call returns what
  the first returned.
\<close>

theorem toSCXMLEvent_idempotent:
  "(isSCXMLEvent e = Inr True \<longrightarrow> toSCXMLEvent e overrides = Inr e) \<and>
   (case toSCXMLEvent e JUndefined of
      Inl err \<Rightarrow> Inl err
    | Inr wrapped \<Rightarrow> toSCXMLEvent wrapped JUndefined) = toSCXMLEvent e JUndefined"
proof -
  have "toSCXMLEvent wrapped JUndefined = Inr wrapped"
    if "toSCXMLEvent e JUndefined = Inr wrapped" for wrapped
  proof (cases "isSCXMLEvent e = Inr True")
    case True
    with that show ?thesis by (simp add: toSCXMLEvent_def)
  next
    case False
    with that obtain name where
      "wrapped = JObj [(''name'', name), (''data'', toEventObject e JUndefined),
         (''$$type'', JStr ''scxml''), (''type'', JStr ''external'')]"
      by (auto simp: toSCXMLEvent_def Let_def split: sum.splits if_splits)
    then show ?thesis by (simp add: toSCXMLEvent_def isSCXMLEvent_wrapped)
  qed
  then show ?thesis by (auto simp: toSCXMLEvent_def split: sum.splits)
qed

theorem toSCXMLEvent_idempotent_witness:
  "toSCXMLEvent
     (JObj [(''name'', JStr ''go''), (''data'', JObj [(''type'', JStr ''go'')]),
            (''$$type'', JStr ''scxml''), (''type'', JStr ''internal'')])
     (JObj [(''type'', JStr ''platform'')])
   = Inr (JObj [(''name'', JStr ''go''), (''data'', JObj [(''type'', JStr ''go'')]),
            (''$$type'', JStr ''scxml''), (''type'', JStr ''internal'')])"
  using toSCXMLEvent_idempotent
    [of "JObj [(''name'', JStr ''go''), (''data'', JObj [(''type'', JStr ''go'')]),
            (''$$type'', JStr ''scxml''), (''type'', JStr ''internal'')]"
        "JObj [(''type'', JStr ''platform'')]"]
  by (simp add: isSCXMLEvent_def isString_def get_def nullish_def)


end
